theory Spec2Isabelle
  imports Main
begin

section \<open>Data model of the persistent run buttons extension\<close>

text \<open>
  The extension (\<^verbatim>\<open>src/extension.ts\<close>) keeps one selected launch configuration,
  restores it from a persisted key, revalidates it when the workspace changes and hands
  it to the debug service. The host (workspace folders, launch settings, the picker, the
  key-value store) is modelled as explicit inputs and an explicit state record.
\<close>

subsection \<open>Host values\<close>

text \<open>
  A configuration payload is a JSON object. \<^verbatim>\<open>DebugConfiguration\<close> declares
  \<^verbatim>\<open>name: string\<close> and an index signature for every other member; the code probes
  the members \<^verbatim>\<open>configurations\<close> and \<^verbatim>\<open>type\<close> with the \<^verbatim>\<open>in\<close> operator, so the
  other members are kept as an association list from member name to value.
\<close>

datatype jvalue =
    JNull
  | JBool bool
  | JNumber int
  | JString string
  | JArray "jvalue list"
  | JObject "(string \<times> jvalue) list"

record WorkspaceFolder =
  uri :: string
  name :: string
  index :: nat

record DebugConfiguration =
  name :: string
  members :: "(string \<times> jvalue) list"

text \<open>The interface \<^verbatim>\<open>LaunchConfig\<close> of the source: name, payload, owning folder.\<close>

record LaunchConfig =
  name :: string
  config :: DebugConfiguration
  folder :: WorkspaceFolder

text \<open>
  What \<^verbatim>\<open>workspace.getConfiguration('launch', folder.uri)\<close> answers for one folder:
  the two lists read by \<^verbatim>\<open>get\<close>, each possibly undefined.
\<close>

record LaunchSettings =
  configurations :: "DebugConfiguration list option"
  compounds :: "DebugConfiguration list option"

text \<open>
  The part of the host the extension reads: the workspace folders (possibly undefined),
  the launch settings of each folder, addressed by its uri, and the setting
  \<^verbatim>\<open>persistentRunButton.showInStatusBar\<close> (possibly unset).
\<close>

record Host =
  workspaceFolders :: "WorkspaceFolder list option"
  launch :: "string \<Rightarrow> LaunchSettings"
  showInStatusBar :: "bool option"

subsection \<open>Enumeration of the configurations\<close>

text \<open>The JavaScript idiom \<^verbatim>\<open>x || []\<close> on a value that is an array or undefined.\<close>

definition or_empty :: "'a list option \<Rightarrow> 'a list" where
  "or_empty x = (case x of None \<Rightarrow> [] | Some xs \<Rightarrow> xs)"

text \<open>
  The inner loop of \<^verbatim>\<open>getAllConfigs\<close>: every configuration of the flattened list is
  pushed at the end of \<^verbatim>\<open>configs\<close> as an entry of the current folder.
\<close>

fun push_configs :: "WorkspaceFolder \<Rightarrow> DebugConfiguration list \<Rightarrow> LaunchConfig list \<Rightarrow> LaunchConfig list" where
  "push_configs f [] configs = configs"
| "push_configs f (c # cs) configs =
     push_configs f cs
       (configs @ [\<lparr>LaunchConfig.name = DebugConfiguration.name c, config = c, folder = f\<rparr>])"

text \<open>The object pushed for configuration \<open>c\<close> of folder \<open>f\<close>.\<close>

definition entry_of :: "WorkspaceFolder \<Rightarrow> DebugConfiguration \<Rightarrow> LaunchConfig" where
  "entry_of f c = \<lparr>LaunchConfig.name = DebugConfiguration.name c, config = c, folder = f\<rparr>"

text \<open>The outer loop over the workspace folders.\<close>

fun folders_loop :: "Host \<Rightarrow> WorkspaceFolder list \<Rightarrow> LaunchConfig list \<Rightarrow> LaunchConfig list" where
  "folders_loop h [] configs = configs"
| "folders_loop h (f # fs) configs =
     (let launchConfig = launch h (uri f);
          configurations = or_empty (configurations launchConfig);
          compoundConfigs = or_empty (compounds launchConfig)
      in folders_loop h fs (push_configs f (concat [configurations, compoundConfigs]) configs))"

definition getAllConfigs :: "Host \<Rightarrow> LaunchConfig list" where
  "getAllConfigs h =
     (case workspaceFolders h of
        None \<Rightarrow> []
      | Some fs \<Rightarrow> folders_loop h fs [])"

subsection \<open>Configuration keys\<close>

text \<open>\<^verbatim>\<open>getConfigKey\<close>: the folder name, a colon, the configuration name.\<close>

definition getConfigKey :: "LaunchConfig \<Rightarrow> string" where
  "getConfigKey cfg = WorkspaceFolder.name (folder cfg) @ '':'' @ LaunchConfig.name cfg"

text \<open>
  \<^verbatim>\<open>String.prototype.split\<close> with a one-character separator and no limit: the string
  is cut at every occurrence of the separator, and the result has one more piece than
  there are separators (the empty string gives one empty piece).
\<close>

fun split :: "char \<Rightarrow> string \<Rightarrow> string list" where
  "split sep [] = [[]]"
| "split sep (c # cs) =
     (if c = sep then [] # split sep cs
      else (case split sep cs of
              [] \<Rightarrow> [[c]]
            | w # ws \<Rightarrow> (c # w) # ws))"

text \<open>Reading an array element: undefined beyond the end.\<close>

fun element :: "'a list \<Rightarrow> nat \<Rightarrow> 'a option" where
  "element [] i = None"
| "element (x # xs) 0 = Some x"
| "element (x # xs) (Suc i) = element xs i"

text \<open>
  \<^verbatim>\<open>getConfigFromKey\<close>: the destructuring \<^verbatim>\<open>[folderName, configName] = key.split(':')\<close>
  takes the first two pieces and drops the others; a missing piece is undefined, which
  is strictly equal to no string.
\<close>

definition getConfigFromKey :: "Host \<Rightarrow> string \<Rightarrow> LaunchConfig option" where
  "getConfigFromKey h key =
     (let pieces = split CHR '':'' key;
          folderName = element pieces 0;
          configName = element pieces 1;
          configs = getAllConfigs h
      in find (\<lambda>cfg. Some (WorkspaceFolder.name (folder cfg)) = folderName
                     \<and> Some (LaunchConfig.name cfg) = configName) configs)"

subsection \<open>Extension state\<close>

text \<open>
  A status bar item as the extension uses it: its label (\<^verbatim>\<open>text\<close> in the source),
  command, tooltip, and whether it is shown.
\<close>

record StatusBarItem =
  label :: string
  command :: string
  tooltip :: string
  shown :: bool

text \<open>
  The module-level variables \<^verbatim>\<open>selectedConfig\<close>, \<^verbatim>\<open>configButton\<close>,
  \<^verbatim>\<open>runButton\<close>, \<^verbatim>\<open>debugButton\<close>, and the entry \<^verbatim>\<open>lastConfigKey\<close> of
  \<^verbatim>\<open>context.workspaceState\<close>. The variable \<^verbatim>\<open>selectConfigDisposable\<close> only
  holds the command registration and is left out.
\<close>

record ExtState =
  selectedConfig :: "LaunchConfig option"
  configButton :: "StatusBarItem option"
  runButton :: "StatusBarItem option"
  debugButton :: "StatusBarItem option"
  lastConfigKey :: "string option"

text \<open>The state when the module is loaded: every variable undefined, the store as persisted.\<close>

definition module_init :: "string option \<Rightarrow> ExtState" where
  "module_init persisted =
     \<lparr>selectedConfig = None, configButton = None, runButton = None, debugButton = None,
      lastConfigKey = persisted\<rparr>"

subsection \<open>Status bar\<close>

text \<open>
  The test \<^verbatim>\<open>configs.some(...)\<close> of \<^verbatim>\<open>updateStatusBar\<close>: some enumerated entry has
  the folder name and the name of the selection.
\<close>

definition stillExists :: "LaunchConfig list \<Rightarrow> LaunchConfig \<Rightarrow> bool" where
  "stillExists configs sel =
     (let currentFolder = WorkspaceFolder.name (folder sel);
          currentName = LaunchConfig.name sel
      in list_ex (\<lambda>cfg. WorkspaceFolder.name (folder cfg) = currentFolder
                        \<and> LaunchConfig.name cfg = currentName) configs)"

text \<open>
  The block of \<^verbatim>\<open>updateStatusBar\<close> under the comment
  \<^verbatim>\<open>Validate that selected config still exists\<close>.
\<close>

definition validate_selected :: "Host \<Rightarrow> ExtState \<Rightarrow> ExtState" where
  "validate_selected h st =
     (case selectedConfig st of
        None \<Rightarrow> st
      | Some sel \<Rightarrow>
          (let configs = getAllConfigs h
           in if \<not> stillExists configs sel
              then st\<lparr>selectedConfig := (if 0 < length configs then Some (configs ! 0) else None)\<rparr>
              else st))"

definition updateStatusBar :: "Host \<Rightarrow> ExtState \<Rightarrow> ExtState" where
  "updateStatusBar h st =
     (case configButton st of
        None \<Rightarrow> st
      | Some button \<Rightarrow>
          (let st1 = validate_selected h st
           in case selectedConfig st1 of
                Some sel \<Rightarrow>
                  st1\<lparr>configButton :=
                        Some (button\<lparr>label := ''$(debug-configure) '' @ LaunchConfig.name sel\<rparr>)\<rparr>
              | None \<Rightarrow>
                  st1\<lparr>configButton := Some (button\<lparr>label := ''$(debug-configure) No Config''\<rparr>)\<rparr>))"

text \<open>\<^verbatim>\<open>window.createStatusBarItem\<close> followed by the assignments of the source.\<close>

definition new_item :: "string \<Rightarrow> string \<Rightarrow> string \<Rightarrow> StatusBarItem" where
  "new_item txt cmd tip = \<lparr>label = txt, command = cmd, tooltip = tip, shown = False\<rparr>"

definition show_item :: "StatusBarItem \<Rightarrow> StatusBarItem" where
  "show_item b = b\<lparr>shown := True\<rparr>"

definition hide_item :: "StatusBarItem \<Rightarrow> StatusBarItem" where
  "hide_item b = b\<lparr>shown := False\<rparr>"

definition updateStatusBarVisibility :: "Host \<Rightarrow> ExtState \<Rightarrow> ExtState" where
  "updateStatusBarVisibility h st =
     (let shouldShow = (case showInStatusBar h of None \<Rightarrow> True | Some b \<Rightarrow> b)
      in if shouldShow then
           (let cb = (case configButton st of
                        None \<Rightarrow> new_item [] ''persistentRunButton.selectConfig''
                                  ''Select Debug Configuration''
                      | Some b \<Rightarrow> b);
                db = (case debugButton st of
                        None \<Rightarrow> new_item ''$(debug-alt)'' ''persistentRunButton.debugSelected''
                                  ''Start Debugging''
                      | Some b \<Rightarrow> b);
                rb = (case runButton st of
                        None \<Rightarrow> new_item ''$(run)'' ''persistentRunButton.runSelected''
                                  ''Run Without Debugging''
                      | Some b \<Rightarrow> b)
            in updateStatusBar h
                 (st\<lparr>configButton := Some (show_item cb),
                     runButton := Some (show_item rb),
                     debugButton := Some (show_item db)\<rparr>))
         else
           st\<lparr>configButton := map_option hide_item (configButton st),
              runButton := map_option hide_item (runButton st),
              debugButton := map_option hide_item (debugButton st)\<rparr>)"

subsection \<open>Activation\<close>

text \<open>
  The first part of \<^verbatim>\<open>activate\<close>: the persisted key is read; a key that is a
  non-empty string (a truthy value) is resolved; with no selection after that, the first
  enumerated configuration is taken, if there is one.
\<close>

definition restore_selection :: "Host \<Rightarrow> ExtState \<Rightarrow> ExtState" where
  "restore_selection h st =
     (let st1 = (case lastConfigKey st of
                   None \<Rightarrow> st
                 | Some key \<Rightarrow>
                     if key \<noteq> [] then st\<lparr>selectedConfig := getConfigFromKey h key\<rparr> else st)
      in case selectedConfig st1 of
           Some sel \<Rightarrow> st1
         | None \<Rightarrow>
             (let configs = getAllConfigs h
              in if 0 < length configs then st1\<lparr>selectedConfig := Some (configs ! 0)\<rparr> else st1))"

text \<open>
  \<^verbatim>\<open>activate\<close>: the selection is restored, the commands and listeners are registered
  (no change of state), and \<^verbatim>\<open>updateStatusBarVisibility\<close> sets the status bar up.
\<close>

definition activate :: "Host \<Rightarrow> ExtState \<Rightarrow> ExtState" where
  "activate h st = updateStatusBarVisibility h (restore_selection h st)"

subsection \<open>Commands\<close>

text \<open>
  The command \<^verbatim>\<open>persistentRunButton.selectConfig\<close>. The answer of the quick pick is
  an input: \<open>None\<close> when the user dismisses it, \<open>Some i\<close> for the item at position
  \<open>i\<close> of the list shown; the picker only returns an item it was given, so a position
  beyond the list counts as dismissed. The host does not change while the command runs.
  With no configuration the command shows a message and leaves the state as it is.
\<close>

definition selectConfig :: "Host \<Rightarrow> nat option \<Rightarrow> ExtState \<Rightarrow> ExtState" where
  "selectConfig h choice st =
     (let configs = getAllConfigs h
      in if length configs = 0 then st
         else (case choice of
                 None \<Rightarrow> st
               | Some i \<Rightarrow>
                   if i < length configs then
                     (let selected = configs ! i;
                          configKey = getConfigKey selected
                      in updateStatusBar h
                           (st\<lparr>selectedConfig := Some selected, lastConfigKey := Some configKey\<rparr>))
                   else st))"

text \<open>\<^verbatim>\<open>isCompound\<close>: the payload has a member \<^verbatim>\<open>configurations\<close> and no member \<^verbatim>\<open>type\<close>.\<close>

definition has_member :: "string \<Rightarrow> DebugConfiguration \<Rightarrow> bool" where
  "has_member k c = (k \<in> set (map fst (members c)))"

definition isCompound :: "DebugConfiguration \<Rightarrow> bool" where
  "isCompound c = (has_member ''configurations'' c \<and> \<not> has_member ''type'' c)"

text \<open>
  The second argument of \<^verbatim>\<open>debug.startDebugging\<close> is a name or a configuration object.
\<close>

datatype target = ByName string | ByConfiguration DebugConfiguration

definition configToStart :: "LaunchConfig \<Rightarrow> target" where
  "configToStart sel =
     (if isCompound (config sel) then ByName (DebugConfiguration.name (config sel))
      else ByConfiguration (config sel))"

text \<open>One call of \<^verbatim>\<open>debug.startDebugging(folder, nameOrConfiguration, options)\<close>.\<close>

record StartDebugging =
  inFolder :: WorkspaceFolder
  nameOrConfiguration :: target
  noDebug :: bool

text \<open>
  The body shared by the two commands: with no selection the select command runs first,
  and the command gives up if there is still none; otherwise the selection is started.
\<close>

definition start_selected :: "bool \<Rightarrow> Host \<Rightarrow> nat option \<Rightarrow> ExtState \<Rightarrow> ExtState \<times> StartDebugging option" where
  "start_selected nd h choice st =
     (let st1 = (case selectedConfig st of None \<Rightarrow> selectConfig h choice st | Some sel \<Rightarrow> st)
      in case selectedConfig st1 of
           None \<Rightarrow> (st1, None)
         | Some sel \<Rightarrow>
             (st1, Some \<lparr>inFolder = folder sel, nameOrConfiguration = configToStart sel,
                         noDebug = nd\<rparr>))"

text \<open>\<^verbatim>\<open>persistentRunButton.runSelected\<close> passes \<^verbatim>\<open>{ noDebug: true }\<close>.\<close>

definition runSelected :: "Host \<Rightarrow> nat option \<Rightarrow> ExtState \<Rightarrow> ExtState \<times> StartDebugging option" where
  "runSelected = start_selected True"

text \<open>\<^verbatim>\<open>persistentRunButton.debugSelected\<close> passes no options.\<close>

definition debugSelected :: "Host \<Rightarrow> nat option \<Rightarrow> ExtState \<Rightarrow> ExtState \<times> StartDebugging option" where
  "debugSelected = start_selected False"

subsection \<open>Change listeners\<close>

definition onDidChangeWorkspaceFolders :: "Host \<Rightarrow> ExtState \<Rightarrow> ExtState" where
  "onDidChangeWorkspaceFolders h st = updateStatusBar h st"

text \<open>
  The event answers \<^verbatim>\<open>affectsConfiguration(section)\<close>. The third test of the source
  (\<^verbatim>\<open>hideBuiltInRunButton\<close>) only shows a message.
\<close>

definition onDidChangeConfiguration :: "Host \<Rightarrow> (string \<Rightarrow> bool) \<Rightarrow> ExtState \<Rightarrow> ExtState" where
  "onDidChangeConfiguration h affectsConfiguration st =
     (let st1 = (if affectsConfiguration ''launch'' then updateStatusBar h st else st)
      in if affectsConfiguration ''persistentRunButton.showInStatusBar''
         then updateStatusBarVisibility h st1 else st1)"

section \<open>Notions used by the properties\<close>

text \<open>
  The selection is valid for a host when there is none, or when an enumerated entry has
  its folder name and its name.
\<close>

definition selection_valid :: "Host \<Rightarrow> ExtState \<Rightarrow> bool" where
  "selection_valid h st =
     (case selectedConfig st of
        None \<Rightarrow> True
      | Some sel \<Rightarrow> stillExists (getAllConfigs h) sel)"

text \<open>
  The resolution of a key as the specification words it, for comparison with
  \<open>getConfigFromKey\<close>: the key is cut at its first colon only, into a root name and a
  configuration name; a key without a colon resolves to nothing.
\<close>

fun spec_split_first :: "char \<Rightarrow> string \<Rightarrow> (string \<times> string) option" where
  "spec_split_first sep [] = None"
| "spec_split_first sep (c # cs) =
     (if c = sep then Some ([], cs)
      else (case spec_split_first sep cs of
              None \<Rightarrow> None
            | Some (a, b) \<Rightarrow> Some (c # a, b)))"

definition spec_resolve :: "Host \<Rightarrow> string \<Rightarrow> LaunchConfig option" where
  "spec_resolve h key =
     (case spec_split_first CHR '':'' key of
        None \<Rightarrow> None
      | Some (rootName, configName) \<Rightarrow>
          find (\<lambda>cfg. WorkspaceFolder.name (folder cfg) = rootName
                     \<and> LaunchConfig.name cfg = configName) (getAllConfigs h))"

section \<open>Example workspaces\<close>

definition rootA :: WorkspaceFolder where
  "rootA = \<lparr>uri = ''file:///work/a'', name = ''RootA'', index = 0\<rparr>"

definition rootB :: WorkspaceFolder where
  "rootB = \<lparr>uri = ''file:///work/b'', name = ''RootB'', index = 1\<rparr>"

text \<open>Two folders that are both displayed as \<^verbatim>\<open>app\<close>.\<close>

definition appOne :: WorkspaceFolder where
  "appOne = \<lparr>uri = ''file:///one/app'', name = ''app'', index = 0\<rparr>"

definition appTwo :: WorkspaceFolder where
  "appTwo = \<lparr>uri = ''file:///two/app'', name = ''app'', index = 1\<rparr>"

definition plain_config :: "string \<Rightarrow> string \<Rightarrow> DebugConfiguration" where
  "plain_config n program =
     \<lparr>DebugConfiguration.name = n,
      members = [(''type'', JString ''node''), (''request'', JString ''launch''),
                 (''program'', JString program)]\<rparr>"

definition compound_config :: "string \<Rightarrow> string list \<Rightarrow> DebugConfiguration" where
  "compound_config n ms =
     \<lparr>DebugConfiguration.name = n, members = [(''configurations'', JArray (map JString ms))]\<rparr>"

definition settings :: "DebugConfiguration list \<Rightarrow> DebugConfiguration list \<Rightarrow> LaunchSettings" where
  "settings cs ks = \<lparr>configurations = Some cs, compounds = Some ks\<rparr>"

definition no_settings :: LaunchSettings where
  "no_settings = \<lparr>configurations = None, compounds = None\<rparr>"

text \<open>A workspace with the single folder \<open>rootA\<close> and the given launch settings.\<close>

definition host_rootA :: "LaunchSettings \<Rightarrow> bool option \<Rightarrow> Host" where
  "host_rootA ls sh =
     \<lparr>workspaceFolders = Some [rootA],
      launch = (\<lambda>u. if u = uri rootA then ls else no_settings),
      showInStatusBar = sh\<rparr>"

text \<open>A workspace with two folders and the given launch settings for each.\<close>

definition host_two :: "WorkspaceFolder \<Rightarrow> LaunchSettings \<Rightarrow> WorkspaceFolder \<Rightarrow> LaunchSettings \<Rightarrow> Host" where
  "host_two f1 ls1 f2 ls2 =
     \<lparr>workspaceFolders = Some [f1, f2],
      launch = (\<lambda>u. if u = uri f1 then ls1 else if u = uri f2 then ls2 else no_settings),
      showInStatusBar = None\<rparr>"

definition host_two_roots :: Host where
  "host_two_roots =
     host_two rootA (settings [plain_config ''Launch'' ''a.js''] [])
              rootB (settings [plain_config ''Launch'' ''b.js''] [])"

definition host_same_name :: Host where
  "host_same_name =
     host_two appOne (settings [plain_config ''Launch'' ''one.js''] [])
              appTwo (settings [plain_config ''Launch'' ''two.js''] [])"

definition launch_test_settings :: LaunchSettings where
  "launch_test_settings =
     settings [plain_config ''Launch'' ''a.js'', plain_config ''Test'' ''t.js'']
              [compound_config ''Full Stack'' [''Launch'', ''Test'']]"

definition only_test_settings :: LaunchSettings where
  "only_test_settings = settings [plain_config ''Test'' ''t.js''] []"

definition host_no_roots :: Host where
  "host_no_roots = \<lparr>workspaceFolders = None, launch = (\<lambda>u. no_settings), showInStatusBar = None\<rparr>"

text \<open>The change event of an edit of the launch settings.\<close>

definition launch_changed :: "string \<Rightarrow> bool" where
  "launch_changed section = (section = ''launch'')"

text \<open>Launch settings in which one configuration name contains a colon.\<close>

definition colon_settings :: LaunchSettings where
  "colon_settings =
     settings [plain_config ''Launch'' ''a.js'', plain_config ''Python: Current File'' ''x.py''] []"

text \<open>The settings of \<open>launch_test_settings\<close> after the program of \<^verbatim>\<open>Launch\<close> was edited.\<close>

definition edited_settings :: LaunchSettings where
  "edited_settings =
     settings [plain_config ''Launch'' ''edited.js'', plain_config ''Test'' ''t.js'']
              [compound_config ''Full Stack'' [''Launch'', ''Test'']]"

text \<open>
  The state after activation in the workspace of \<open>launch_test_settings\<close> with the
  persisted key \<^verbatim>\<open>RootA:Launch\<close>, once with the status bar shown and once with
  \<^verbatim>\<open>showInStatusBar\<close> switched off.
\<close>

definition started_on_launch :: ExtState where
  "started_on_launch =
     activate (host_rootA launch_test_settings None) (module_init (Some ''RootA:Launch''))"



section \<open>Enumeration order\<close>

lemma push_configs_append: "push_configs f cs configs = configs @ map (entry_of f) cs"
  by (induction cs arbitrary: configs) (simp_all add: entry_of_def)

lemma folders_loop_append:
  "folders_loop h fs configs =
     configs @ concat (map (\<lambda>f. map (entry_of f) (or_empty (configurations (launch h (uri f))))
                                @ map (entry_of f) (or_empty (compounds (launch h (uri f))))) fs)"
  by (induction fs arbitrary: configs) (simp_all add: push_configs_append Let_def)

lemma getAllConfigs_concat:
  "getAllConfigs h =
     concat (map (\<lambda>f. map (entry_of f) (or_empty (configurations (launch h (uri f))))
                      @ map (entry_of f) (or_empty (compounds (launch h (uri f)))))
                 (or_empty (workspaceFolders h)))"
  by (simp add: getAllConfigs_def folders_loop_append or_empty_def split: option.splits)

lemma enumerated_name:
  assumes "e \<in> set (getAllConfigs h)"
  shows "LaunchConfig.name e = DebugConfiguration.name (config e)"
  using assms by (auto simp: getAllConfigs_concat entry_of_def)

text \<open>
  Claim C9. \<open>getAllConfigs\<close> returns, folder after folder in the order of
  \<^verbatim>\<open>workspaceFolders\<close>, the entries of the folder's plain configurations followed by
  those of its compounds, each list in its declared order; with the folders undefined or
  empty it returns the empty list.
\<close>

theorem enumeration_order:
  "getAllConfigs h =
     concat (map (\<lambda>f. map (entry_of f) (or_empty (configurations (launch h (uri f))))
                      @ map (entry_of f) (or_empty (compounds (launch h (uri f)))))
                 (or_empty (workspaceFolders h)))
   \<and> getAllConfigs (h\<lparr>workspaceFolders := None\<rparr>) = []
   \<and> getAllConfigs (h\<lparr>workspaceFolders := Some []\<rparr>) = []"
  by (simp add: getAllConfigs_def folders_loop_append or_empty_def split: option.splits)

theorem enumeration_order_witness:
  "getAllConfigs (host_rootA launch_test_settings None) =
     [entry_of rootA (plain_config ''Launch'' ''a.js''),
      entry_of rootA (plain_config ''Test'' ''t.js''),
      entry_of rootA (compound_config ''Full Stack'' [''Launch'', ''Test''])]
   \<and> getAllConfigs (host_rootA launch_test_settings None\<lparr>workspaceFolders := None\<rparr>) = []"
  using enumeration_order [of "host_rootA launch_test_settings None"]
  by (simp add: or_empty_def host_rootA_def launch_test_settings_def settings_def)

subsection \<open>The example workspaces enumerated\<close>

lemma configs_launch_test:
  "getAllConfigs (host_rootA launch_test_settings sh) =
     [entry_of rootA (plain_config ''Launch'' ''a.js''),
      entry_of rootA (plain_config ''Test'' ''t.js''),
      entry_of rootA (compound_config ''Full Stack'' [''Launch'', ''Test''])]"
  by (simp add: getAllConfigs_concat or_empty_def host_rootA_def launch_test_settings_def
      settings_def)

lemma configs_edited:
  "getAllConfigs (host_rootA edited_settings sh) =
     [entry_of rootA (plain_config ''Launch'' ''edited.js''),
      entry_of rootA (plain_config ''Test'' ''t.js''),
      entry_of rootA (compound_config ''Full Stack'' [''Launch'', ''Test''])]"
  by (simp add: getAllConfigs_concat or_empty_def host_rootA_def edited_settings_def
      settings_def)

lemma configs_only_test:
  "getAllConfigs (host_rootA only_test_settings sh) =
     [entry_of rootA (plain_config ''Test'' ''t.js'')]"
  by (simp add: getAllConfigs_concat or_empty_def host_rootA_def only_test_settings_def
      settings_def)

lemma configs_colon:
  "getAllConfigs (host_rootA colon_settings sh) =
     [entry_of rootA (plain_config ''Launch'' ''a.js''),
      entry_of rootA (plain_config ''Python: Current File'' ''x.py'')]"
  by (simp add: getAllConfigs_concat or_empty_def host_rootA_def colon_settings_def
      settings_def)

lemma configs_two:
  "uri f1 \<noteq> uri f2 \<Longrightarrow>
   getAllConfigs (host_two f1 (settings cs1 ks1) f2 (settings cs2 ks2)) =
     map (entry_of f1) cs1 @ map (entry_of f1) ks1
     @ map (entry_of f2) cs2 @ map (entry_of f2) ks2"
  by (simp add: getAllConfigs_concat or_empty_def host_two_def settings_def)

lemma configs_no_roots: "getAllConfigs host_no_roots = []"
  by (simp add: getAllConfigs_def host_no_roots_def)

section \<open>Configuration keys\<close>

lemma split_no_sep: "sep \<notin> set s \<Longrightarrow> split sep s = [s]"
  by (induction s) auto

lemma split_first_sep: "sep \<notin> set a \<Longrightarrow> split sep (a @ sep # b) = a # split sep b"
  by (induction a) auto

lemma find_first:
  "i < length xs \<Longrightarrow> P (xs ! i) \<Longrightarrow> \<forall>j<i. \<not> P (xs ! j) \<Longrightarrow> find P xs = Some (xs ! i)"
  by (auto simp: find_Some_iff)

lemma getConfigFromKey_no_colon: "CHR '':'' \<notin> set key \<Longrightarrow> getConfigFromKey h key = None"
  by (simp add: getConfigFromKey_def split_no_sep find_None_iff)

lemma getConfigFromKey_empty: "getConfigFromKey h [] = None"
  by (simp add: getConfigFromKey_no_colon)

lemma getConfigFromKey_member:
  "getConfigFromKey h key = Some e \<Longrightarrow> e \<in> set (getAllConfigs h)"
  by (auto simp: getConfigFromKey_def Let_def find_Some_iff)

text \<open>
  Claim C1, as stated, fails: the key of an enumerated entry need not resolve to that
  entry. In a workspace with two folders that are both displayed as \<^verbatim>\<open>app\<close>, the key
  of the second folder's \<^verbatim>\<open>Launch\<close> resolves to the first folder's entry; and the key
  of a configuration named \<^verbatim>\<open>Python: Current File\<close> resolves to nothing.
\<close>

theorem key_roundtrip_counterexample:
  "getAllConfigs host_same_name ! 1 = entry_of appTwo (plain_config ''Launch'' ''two.js'')
   \<and> getConfigFromKey host_same_name
         (getConfigKey (entry_of appTwo (plain_config ''Launch'' ''two.js'')))
       = Some (entry_of appOne (plain_config ''Launch'' ''one.js''))
   \<and> entry_of appOne (plain_config ''Launch'' ''one.js'')
       \<noteq> entry_of appTwo (plain_config ''Launch'' ''two.js'')
   \<and> getAllConfigs (host_rootA colon_settings None) ! 1
       = entry_of rootA (plain_config ''Python: Current File'' ''x.py'')
   \<and> getConfigFromKey (host_rootA colon_settings None)
         (getConfigKey (entry_of rootA (plain_config ''Python: Current File'' ''x.py'')))
       = None"
  by (simp add: getConfigFromKey_def getConfigKey_def host_same_name_def configs_two
      configs_colon appOne_def appTwo_def rootA_def entry_of_def plain_config_def)

text \<open>
  Claim C1, amended. For an enumerated entry whose folder name and configuration name
  contain no colon, and which is the first enumerated entry with that folder name and
  that configuration name, the key of the entry resolves to the entry.
\<close>

theorem key_roundtrip:
  assumes "i < length (getAllConfigs h)"
    and "e = getAllConfigs h ! i"
    and "\<forall>j<i. \<not> (WorkspaceFolder.name (folder (getAllConfigs h ! j))
                      = WorkspaceFolder.name (folder e)
                    \<and> LaunchConfig.name (getAllConfigs h ! j) = LaunchConfig.name e)"
    and "CHR '':'' \<notin> set (WorkspaceFolder.name (folder e))"
    and "CHR '':'' \<notin> set (LaunchConfig.name e)"
  shows "getConfigFromKey h (getConfigKey e) = Some e"
proof -
  have "split CHR '':'' (getConfigKey e)
          = [WorkspaceFolder.name (folder e), LaunchConfig.name e]"
    using assms(4,5) by (simp add: getConfigKey_def split_first_sep split_no_sep)
  then show ?thesis
    using assms(1,2,3) unfolding getConfigFromKey_def Let_def
    by (simp add: find_first)
qed

theorem key_roundtrip_witness:
  "getAllConfigs host_two_roots ! 1 = entry_of rootB (plain_config ''Launch'' ''b.js'')
   \<and> getConfigFromKey host_two_roots
         (getConfigKey (entry_of rootB (plain_config ''Launch'' ''b.js'')))
       = Some (entry_of rootB (plain_config ''Launch'' ''b.js''))"
  using key_roundtrip [of 1 host_two_roots "entry_of rootB (plain_config ''Launch'' ''b.js'')"]
  by (simp add: host_two_roots_def configs_two rootA_def rootB_def entry_of_def
      plain_config_def)

subsection \<open>Resolution compared with its specification\<close>

lemma spec_split_first_None: "spec_split_first sep s = None \<longleftrightarrow> sep \<notin> set s"
  by (induction s) (auto split: option.splits)

lemma spec_split_first_Some:
  "spec_split_first sep s = Some (a, b) \<Longrightarrow> s = a @ sep # b \<and> sep \<notin> set a"
  by (induction s arbitrary: a) (auto split: option.splits if_splits)

text \<open>On a key with at most one colon the code resolves as the specification says.\<close>

lemma getConfigFromKey_agrees:
  assumes "length (filter (\<lambda>c. c = CHR '':'') key) \<le> 1"
  shows "getConfigFromKey h key = spec_resolve h key"
proof (cases "spec_split_first CHR '':'' key")
  case None
  then have "CHR '':'' \<notin> set key"
    by (simp add: spec_split_first_None)
  with None show ?thesis
    by (simp add: spec_resolve_def getConfigFromKey_no_colon)
next
  case (Some p)
  obtain a b where p: "p = (a, b)" by (cases p)
  from Some p have k: "key = a @ CHR '':'' # b" and a: "CHR '':'' \<notin> set a"
    using spec_split_first_Some by blast+
  from assms k a have b: "CHR '':'' \<notin> set b"
    by (auto simp: filter_empty_conv)
  have "split CHR '':'' key = [a, b]"
    using a b k by (simp add: split_first_sep split_no_sep)
  then show ?thesis
    using Some p by (simp add: spec_resolve_def getConfigFromKey_def)
qed

text \<open>With two roots that each have a \<^verbatim>\<open>Launch\<close>, the key of the second resolves to it.\<close>

lemma getConfigFromKey_second_root:
  "getConfigFromKey host_two_roots ''RootB:Launch''
     = Some (entry_of rootB (plain_config ''Launch'' ''b.js''))"
  by (simp add: getConfigFromKey_def host_two_roots_def configs_two rootA_def rootB_def
      entry_of_def plain_config_def)

text \<open>
  Claim C2. The claim has the key cut at its first colon. The code cuts it at every colon
  and keeps the first two pieces: for the configuration \<^verbatim>\<open>Python: Current File\<close> of
  \<^verbatim>\<open>RootA\<close>, whose key is \<^verbatim>\<open>RootA:Python: Current File\<close>, the code looks for a
  configuration named \<^verbatim>\<open>Python\<close> and returns nothing, where the resolution of the
  claim returns the entry.
\<close>

theorem resolve_cuts_at_every_colon:
  "getAllConfigs (host_rootA colon_settings None) ! 1
     = entry_of rootA (plain_config ''Python: Current File'' ''x.py'')
   \<and> getConfigKey (entry_of rootA (plain_config ''Python: Current File'' ''x.py''))
       = ''RootA:Python: Current File''
   \<and> split CHR '':'' ''RootA:Python: Current File'' = [''RootA'', ''Python'', '' Current File'']
   \<and> getConfigFromKey (host_rootA colon_settings None) ''RootA:Python: Current File'' = None
   \<and> spec_resolve (host_rootA colon_settings None) ''RootA:Python: Current File''
       = Some (entry_of rootA (plain_config ''Python: Current File'' ''x.py''))"
  by (simp add: getConfigFromKey_def spec_resolve_def getConfigKey_def configs_colon
      rootA_def entry_of_def plain_config_def)

section \<open>Validation of the selection\<close>

lemma stillExists_member: "e \<in> set configs \<Longrightarrow> stillExists configs e"
  by (auto simp: stillExists_def list_ex_iff)

lemma stillExists_nonempty: "stillExists configs sel \<Longrightarrow> configs \<noteq> []"
  by (auto simp: stillExists_def)

lemma selectedConfig_validate:
  "selectedConfig (validate_selected h st) =
     (case selectedConfig st of
        None \<Rightarrow> None
      | Some sel \<Rightarrow>
          if stillExists (getAllConfigs h) sel then Some sel
          else if getAllConfigs h = [] then None else Some (getAllConfigs h ! 0))"
  by (simp add: validate_selected_def Let_def split: option.splits)

text \<open>With no selection the validation selects nothing, whatever is enumerated.\<close>

lemma validate_none: "selectedConfig st = None \<Longrightarrow> validate_selected h st = st"
  by (simp add: validate_selected_def)

lemma validate_valid: "selection_valid h (validate_selected h st)"
  by (auto simp: selection_valid_def selectedConfig_validate stillExists_member
           split: option.splits)

lemma validate_fixed: "selection_valid h st \<Longrightarrow> validate_selected h st = st"
  by (simp add: selection_valid_def validate_selected_def split: option.splits)

lemma validate_others:
  "configButton (validate_selected h st) = configButton st"
  "runButton (validate_selected h st) = runButton st"
  "debugButton (validate_selected h st) = debugButton st"
  "lastConfigKey (validate_selected h st) = lastConfigKey st"
  by (simp_all add: validate_selected_def Let_def split: option.splits)

lemma selectedConfig_updateStatusBar:
  "selectedConfig (updateStatusBar h st) =
     (if configButton st = None then selectedConfig st
      else selectedConfig (validate_selected h st))"
  by (simp add: updateStatusBar_def Let_def split: option.splits)

text \<open>The label shown is computed from the selection as validated in the same call.\<close>

lemma label_updateStatusBar:
  "configButton st = Some b \<Longrightarrow>
   map_option label (configButton (updateStatusBar h st)) =
     Some (case selectedConfig (validate_selected h st) of
             Some sel \<Rightarrow> ''$(debug-configure) '' @ LaunchConfig.name sel
           | None \<Rightarrow> ''$(debug-configure) No Config'')"
  by (simp add: updateStatusBar_def Let_def split: option.splits)

lemma lastConfigKey_updateStatusBar:
  "lastConfigKey (updateStatusBar h st) = lastConfigKey st"
  by (simp add: updateStatusBar_def Let_def validate_others split: option.splits)


lemma updateStatusBar_keeps_valid:
  "selection_valid h st \<Longrightarrow> selectedConfig (updateStatusBar h st) = selectedConfig st"
  by (simp add: selectedConfig_updateStatusBar validate_fixed)

lemma selectedConfig_visibility:
  "selection_valid h st \<Longrightarrow> selectedConfig (updateStatusBarVisibility h st) = selectedConfig st"
  by (simp add: updateStatusBarVisibility_def Let_def selectedConfig_updateStatusBar
      validate_fixed selection_valid_def split: option.splits)


lemma lastConfigKey_visibility:
  "lastConfigKey (updateStatusBarVisibility h st) = lastConfigKey st"
  by (simp add: updateStatusBarVisibility_def Let_def lastConfigKey_updateStatusBar)

subsection \<open>The example states\<close>

lemma started_on_launch_eq:
  "started_on_launch =
     \<lparr>selectedConfig = Some (entry_of rootA (plain_config ''Launch'' ''a.js'')),
      configButton = Some \<lparr>label = ''$(debug-configure) Launch'',
                           command = ''persistentRunButton.selectConfig'',
                           tooltip = ''Select Debug Configuration'', shown = True\<rparr>,
      runButton = Some \<lparr>label = ''$(run)'', command = ''persistentRunButton.runSelected'',
                        tooltip = ''Run Without Debugging'', shown = True\<rparr>,
      debugButton = Some \<lparr>label = ''$(debug-alt)'',
                          command = ''persistentRunButton.debugSelected'',
                          tooltip = ''Start Debugging'', shown = True\<rparr>,
      lastConfigKey = Some ''RootA:Launch''\<rparr>"
  by (simp add: started_on_launch_def activate_def restore_selection_def
      updateStatusBarVisibility_def updateStatusBar_def validate_selected_def stillExists_def
      Let_def module_init_def getConfigFromKey_def configs_launch_test new_item_def
      show_item_def rootA_def entry_of_def plain_config_def compound_config_def
      host_rootA_def [of _ None, THEN arg_cong [of _ _ showInStatusBar]])



lemma entry_of_fields:
  "folder (entry_of f c) = f"
  "config (entry_of f c) = c"
  "LaunchConfig.name (entry_of f c) = DebugConfiguration.name c"
  by (simp_all add: entry_of_def)

lemma configToStart_plain:
  "configToStart (entry_of f (plain_config n p)) = ByConfiguration (plain_config n p)"
  by (simp add: configToStart_def isCompound_def has_member_def entry_of_def plain_config_def)


lemma stale_launch:
  "stillExists [entry_of rootA (plain_config ''Test'' ''t.js'')]
     (entry_of rootA (plain_config ''Launch'' ''a.js'')) = False"
  by (simp add: stillExists_def entry_of_def plain_config_def)

lemma edited_launch:
  "stillExists (entry_of rootA (plain_config ''Launch'' ''edited.js'') # rest)
     (entry_of rootA (plain_config ''Launch'' ''a.js'')) = True"
  by (simp add: stillExists_def entry_of_def plain_config_def)

section \<open>Reconciliation\<close>

text \<open>
  Claim C8. Updating the status bar twice for the same host gives the state that updating
  it once gives; in particular the selection is the same.
\<close>

theorem reconcile_idempotent:
  "updateStatusBar h (updateStatusBar h st) = updateStatusBar h st"
proof (cases "configButton st")
  case None
  then show ?thesis by (simp add: updateStatusBar_def)
next
  case (Some button)
  let ?v = "validate_selected h st"
  have fixed: "\<And>b. validate_selected h (?v\<lparr>configButton := b\<rparr>) = ?v\<lparr>configButton := b\<rparr>"
    using validate_valid [of h st]
    by (intro validate_fixed) (simp add: selection_valid_def)
  show ?thesis
    using Some
    by (simp add: updateStatusBar_def Let_def validate_others fixed split: option.splits)
qed

theorem reconcile_idempotent_witness:
  "updateStatusBar (host_rootA only_test_settings None)
     (updateStatusBar (host_rootA only_test_settings None) started_on_launch)
   = updateStatusBar (host_rootA only_test_settings None) started_on_launch
   \<and> selectedConfig (updateStatusBar (host_rootA only_test_settings None) started_on_launch)
       = Some (entry_of rootA (plain_config ''Test'' ''t.js''))"
  using reconcile_idempotent [of "host_rootA only_test_settings None" started_on_launch]
  by (simp add: selectedConfig_updateStatusBar selectedConfig_validate started_on_launch_eq
      configs_only_test stale_launch)

text \<open>
  Claim C4. When the validation runs on a selection whose folder name and name match no
  enumerated entry, the selection becomes the first enumerated entry, or none when the
  enumeration is empty; with an empty enumeration the selection is none afterwards
  whatever it was before. \<open>updateStatusBar\<close> runs the validation when the status bar
  item exists.
\<close>

theorem reconcile_repair:
  "(selectedConfig st = Some sel \<and> \<not> stillExists (getAllConfigs h) sel \<longrightarrow>
      selectedConfig (validate_selected h st)
        = (if getAllConfigs h = [] then None else Some (getAllConfigs h ! 0))
      \<and> (configButton st \<noteq> None \<longrightarrow>
           selectedConfig (updateStatusBar h st)
             = (if getAllConfigs h = [] then None else Some (getAllConfigs h ! 0))))
   \<and> (getAllConfigs h = [] \<longrightarrow>
        selectedConfig (validate_selected h st) = None
        \<and> (configButton st \<noteq> None \<longrightarrow> selectedConfig (updateStatusBar h st) = None))"
  by (auto simp: selectedConfig_updateStatusBar selectedConfig_validate
           dest: stillExists_nonempty split: option.splits)

theorem reconcile_repair_witness:
  "selectedConfig started_on_launch = Some (entry_of rootA (plain_config ''Launch'' ''a.js''))
   \<and> \<not> stillExists (getAllConfigs (host_rootA only_test_settings None))
          (entry_of rootA (plain_config ''Launch'' ''a.js''))
   \<and> selectedConfig (updateStatusBar (host_rootA only_test_settings None) started_on_launch)
       = Some (entry_of rootA (plain_config ''Test'' ''t.js''))
   \<and> getAllConfigs host_no_roots = []
   \<and> selectedConfig (updateStatusBar host_no_roots started_on_launch) = None"
  using reconcile_repair [of started_on_launch
          "entry_of rootA (plain_config ''Launch'' ''a.js'')"
          "host_rootA only_test_settings None"]
        reconcile_repair [of started_on_launch
          "entry_of rootA (plain_config ''Launch'' ''a.js'')" host_no_roots]
  by (simp add: started_on_launch_eq configs_only_test configs_no_roots stale_launch)

text \<open>
  Claim C10. When an enumerated entry has the folder name and the name of the selection,
  updating the status bar leaves the selection as it is held, payload included, and a run
  or a debug started next hands over the target computed from that held payload.
\<close>

theorem stale_payload_retained:
  assumes "selectedConfig st = Some sel"
    and "stillExists (getAllConfigs h) sel"
  shows "selectedConfig (updateStatusBar h st) = Some sel
    \<and> snd (runSelected h choice (updateStatusBar h st))
        = Some \<lparr>inFolder = folder sel, nameOrConfiguration = configToStart sel, noDebug = True\<rparr>
    \<and> snd (debugSelected h choice (updateStatusBar h st))
        = Some \<lparr>inFolder = folder sel, nameOrConfiguration = configToStart sel, noDebug = False\<rparr>"
proof -
  have "selection_valid h st"
    using assms by (simp add: selection_valid_def)
  then have "selectedConfig (updateStatusBar h st) = Some sel"
    using assms(1) by (simp add: updateStatusBar_keeps_valid)
  then show ?thesis
    by (simp add: runSelected_def debugSelected_def start_selected_def)
qed

theorem stale_payload_retained_witness:
  "getAllConfigs (host_rootA edited_settings None) ! 0
     = entry_of rootA (plain_config ''Launch'' ''edited.js'')
   \<and> selectedConfig (updateStatusBar (host_rootA edited_settings None) started_on_launch)
       = Some (entry_of rootA (plain_config ''Launch'' ''a.js''))
   \<and> snd (runSelected (host_rootA edited_settings None) None
             (updateStatusBar (host_rootA edited_settings None) started_on_launch))
       = Some \<lparr>inFolder = rootA,
               nameOrConfiguration = ByConfiguration (plain_config ''Launch'' ''a.js''),
               noDebug = True\<rparr>
   \<and> plain_config ''Launch'' ''a.js'' \<noteq> plain_config ''Launch'' ''edited.js''"
proof -
  have "plain_config ''Launch'' ''a.js'' \<noteq> plain_config ''Launch'' ''edited.js''"
    by (simp add: plain_config_def)
  then show ?thesis
    using stale_payload_retained [of started_on_launch
          "entry_of rootA (plain_config ''Launch'' ''a.js'')"
          "host_rootA edited_settings None" None]
    by (simp add: started_on_launch_eq configs_edited edited_launch configToStart_plain
        entry_of_fields)
qed

section \<open>Activation\<close>

lemma selectedConfig_restore:
  "selectedConfig (restore_selection h (module_init key)) =
     (case (case key of None \<Rightarrow> None | Some k \<Rightarrow> getConfigFromKey h k) of
        Some e \<Rightarrow> Some e
      | None \<Rightarrow> if getAllConfigs h = [] then None else Some (getAllConfigs h ! 0))"
  by (simp add: restore_selection_def module_init_def Let_def getConfigFromKey_empty
           split: option.splits)

lemma restore_valid: "selection_valid h (restore_selection h (module_init key))"
proof (cases "selectedConfig (restore_selection h (module_init key))")
  case None
  then show ?thesis by (simp add: selection_valid_def)
next
  case (Some e)
  then have "e \<in> set (getAllConfigs h)"
    by (auto simp: selectedConfig_restore dest: getConfigFromKey_member
             split: option.splits if_splits)
  with Some show ?thesis
    by (simp add: selection_valid_def stillExists_member)
qed

text \<open>
  Claim C5. After activation from the freshly loaded module, the selection is the entry
  the persisted key resolves to when there is a key and it resolves; otherwise it is the
  first enumerated entry, or none when nothing is enumerated. The status bar set-up that
  ends the activation does not change what the first part of \<open>activate\<close> selected.
\<close>

theorem startup_selection:
  "selectedConfig (activate h (module_init key)) =
     (case (case key of None \<Rightarrow> None | Some k \<Rightarrow> getConfigFromKey h k) of
        Some e \<Rightarrow> Some e
      | None \<Rightarrow> if getAllConfigs h = [] then None else Some (getAllConfigs h ! 0))
   \<and> selectedConfig (restore_selection h (module_init key))
       = selectedConfig (activate h (module_init key))"
  by (simp add: activate_def selectedConfig_visibility restore_valid selectedConfig_restore)

theorem startup_selection_witness:
  "selectedConfig (activate (host_rootA launch_test_settings None) (module_init None))
     = Some (entry_of rootA (plain_config ''Launch'' ''a.js''))
   \<and> selectedConfig (activate host_two_roots (module_init (Some ''RootB:Launch'')))
       = Some (entry_of rootB (plain_config ''Launch'' ''b.js''))
   \<and> selectedConfig (activate host_two_roots (module_init (Some ''RootC:Launch'')))
       = Some (entry_of rootA (plain_config ''Launch'' ''a.js''))
   \<and> selectedConfig (activate host_no_roots (module_init (Some ''RootB:Launch''))) = None"
  using startup_selection [of "host_rootA launch_test_settings None" None]
    startup_selection [of host_two_roots "Some ''RootB:Launch''"]
    startup_selection [of host_two_roots "Some ''RootC:Launch''"]
    startup_selection [of host_no_roots "Some ''RootB:Launch''"]
  by (simp add: configs_launch_test configs_no_roots getConfigFromKey_def host_two_roots_def
      configs_two rootA_def rootB_def entry_of_def plain_config_def)

section \<open>Dispatch\<close>

text \<open>
  Claim C3. The target handed to \<^verbatim>\<open>debug.startDebugging\<close> is a name exactly when the
  payload has a member \<^verbatim>\<open>configurations\<close> and no member \<^verbatim>\<open>type\<close>, and then it is the
  name of the payload, which for an enumerated entry is the name of the entry; in every
  other case it is the payload itself. The run and the debug command hand over this target
  for the selection they find.
\<close>

theorem dispatch_target:
  "configToStart e =
     (if has_member ''configurations'' (config e) \<and> \<not> has_member ''type'' (config e)
      then ByName (DebugConfiguration.name (config e))
      else ByConfiguration (config e))
   \<and> (e \<in> set (getAllConfigs h) \<longrightarrow> DebugConfiguration.name (config e) = LaunchConfig.name e)
   \<and> (selectedConfig st = Some e \<longrightarrow>
        snd (runSelected h choice st)
          = Some \<lparr>inFolder = folder e, nameOrConfiguration = configToStart e, noDebug = True\<rparr>
        \<and> snd (debugSelected h choice st)
          = Some \<lparr>inFolder = folder e, nameOrConfiguration = configToStart e, noDebug = False\<rparr>)"
  by (simp add: configToStart_def isCompound_def enumerated_name runSelected_def
      debugSelected_def start_selected_def)

theorem dispatch_target_witness:
  "configToStart (entry_of rootA (compound_config ''Full Stack'' [''Launch'', ''Test'']))
     = ByName ''Full Stack''
   \<and> entry_of rootA (compound_config ''Full Stack'' [''Launch'', ''Test''])
       \<in> set (getAllConfigs (host_rootA launch_test_settings None))
   \<and> LaunchConfig.name (entry_of rootA (compound_config ''Full Stack'' [''Launch'', ''Test'']))
       = ''Full Stack''
   \<and> snd (runSelected (host_rootA launch_test_settings None) None
             (started_on_launch\<lparr>selectedConfig :=
                Some (entry_of rootA (compound_config ''Full Stack'' [''Launch'', ''Test'']))\<rparr>))
       = Some \<lparr>inFolder = rootA, nameOrConfiguration = ByName ''Full Stack'', noDebug = True\<rparr>"
  using dispatch_target [of "entry_of rootA (compound_config ''Full Stack'' [''Launch'', ''Test''])"
          "host_rootA launch_test_settings None"
          "started_on_launch\<lparr>selectedConfig :=
             Some (entry_of rootA (compound_config ''Full Stack'' [''Launch'', ''Test'']))\<rparr>"
          None]
  by (simp add: configs_launch_test has_member_def entry_of_def compound_config_def)

section \<open>Commands and listeners\<close>

lemma selectConfig_pick:
  assumes "i < length (getAllConfigs h)"
  shows "selectedConfig (selectConfig h (Some i) st) = Some (getAllConfigs h ! i)"
    and "lastConfigKey (selectConfig h (Some i) st) = Some (getConfigKey (getAllConfigs h ! i))"
proof -
  let ?st = "st\<lparr>selectedConfig := Some (getAllConfigs h ! i),
                 lastConfigKey := Some (getConfigKey (getAllConfigs h ! i))\<rparr>"
  have "selection_valid h ?st"
    using assms by (simp add: selection_valid_def stillExists_member)
  then have "selectedConfig (updateStatusBar h ?st) = Some (getAllConfigs h ! i)"
    by (simp add: updateStatusBar_keeps_valid)
  then show "selectedConfig (selectConfig h (Some i) st) = Some (getAllConfigs h ! i)"
    using assms by (auto simp: selectConfig_def Let_def)
  show "lastConfigKey (selectConfig h (Some i) st) = Some (getConfigKey (getAllConfigs h ! i))"
    using assms by (auto simp: selectConfig_def Let_def lastConfigKey_updateStatusBar)
qed













section \<open>The persisted key\<close>

text \<open>
  Claim C7, as stated, fails. When \<open>updateStatusBar\<close> replaces a stale selection, the
  persisted key is not written: after \<^verbatim>\<open>Launch\<close> has been deleted the selection is
  \<^verbatim>\<open>Test\<close>, whose key is \<^verbatim>\<open>RootA:Test\<close>, and the store still holds \<^verbatim>\<open>RootA:Launch\<close>.
\<close>

theorem persisted_key_counterexample:
  "selectedConfig (onDidChangeConfiguration (host_rootA only_test_settings None) launch_changed
                     started_on_launch)
     = Some (entry_of rootA (plain_config ''Test'' ''t.js''))
   \<and> getConfigKey (entry_of rootA (plain_config ''Test'' ''t.js'')) = ''RootA:Test''
   \<and> lastConfigKey (onDidChangeConfiguration (host_rootA only_test_settings None) launch_changed
                       started_on_launch)
       = Some ''RootA:Launch''"
proof -
  have "getConfigKey (entry_of rootA (plain_config ''Test'' ''t.js'')) = ''RootA:Test''"
    by (simp add: getConfigKey_def entry_of_def rootA_def plain_config_def)
  then show ?thesis
    by (simp add: onDidChangeConfiguration_def launch_changed_def Let_def
        selectedConfig_updateStatusBar selectedConfig_validate lastConfigKey_updateStatusBar
        started_on_launch_eq configs_only_test stale_launch)
qed

text \<open>
  Claim C7, amended. After the user has picked an entry in the select command, the
  selection is that entry and the persisted key is its key. Updating the status bar and
  the two change listeners never write the persisted key.
\<close>

theorem persisted_key_tracking:
  "(i < length (getAllConfigs h) \<longrightarrow>
      selectedConfig (selectConfig h (Some i) st) = Some (getAllConfigs h ! i)
      \<and> lastConfigKey (selectConfig h (Some i) st) = Some (getConfigKey (getAllConfigs h ! i)))
   \<and> lastConfigKey (updateStatusBar h st) = lastConfigKey st
   \<and> lastConfigKey (onDidChangeWorkspaceFolders h st) = lastConfigKey st
   \<and> lastConfigKey (onDidChangeConfiguration h affects st) = lastConfigKey st"
  by (simp add: selectConfig_pick onDidChangeWorkspaceFolders_def onDidChangeConfiguration_def
      Let_def lastConfigKey_updateStatusBar lastConfigKey_visibility)

theorem persisted_key_tracking_witness:
  "selectedConfig (selectConfig (host_rootA launch_test_settings None) (Some 1) started_on_launch)
     = Some (entry_of rootA (plain_config ''Test'' ''t.js''))
   \<and> lastConfigKey (selectConfig (host_rootA launch_test_settings None) (Some 1)
                       started_on_launch)
       = Some ''RootA:Test''"
  using persisted_key_tracking [of 1 "host_rootA launch_test_settings None" started_on_launch]
  by (simp add: configs_launch_test getConfigKey_def entry_of_def rootA_def plain_config_def)

end
